theory Spec2Isabelle
  imports Complex_Main "HOL-Library.Multiset"
begin

section \<open>Values shared by the three scripts\<close>

text \<open>
  A Python \<open>str\<close> is a sequence of Unicode code points. The labels of the band table
  are not ASCII, so a text value is a list of code points; \<open>ascii\<close> embeds the ASCII
  part of a literal. Dictionary keys and colour codes are ASCII literals in the source
  and stay \<open>string\<close>s.
\<close>

type_synonym ustr = "nat list"

definition ascii :: "string \<Rightarrow> ustr" where
  "ascii s = map of_char s"

text \<open>The exceptions the modelled code can raise.\<close>

datatype exn = KeyError | ValueError | TypeError | OtherError

text \<open>
  A value as \<open>response.json()\<close> delivers it: \<open>None\<close>, a bool, an int, a float, a
  string, a list or a dict.
\<close>

datatype raw =
    JNull
  | JBool bool
  | JInt int
  | JFloat real
  | JStr ustr
  | JArr "raw list"
  | JObj "(string \<times> raw) list"

text \<open>
  A station reading: the dict built by \<open>process_aqi_data\<close>, and (read back from the CSV
  file that \<open>save_results\<close> writes) one row of the data frame of the other two scripts.
  A missing cell of a data frame (\<open>NaN\<close>) is \<open>None\<close> here.
\<close>

record reading =
  site_id :: raw
  site_name :: raw
  county :: raw
  aqi :: "int option"
  pollutant :: raw
  status :: raw
  pm25 :: "real option"
  pm10 :: "real option"
  so2 :: "real option"
  no2 :: "real option"
  co :: "real option"
  o3 :: "real option"
  wind_speed :: "real option"
  wind_direction :: "real option"
  data_time :: raw
  latitude :: "real option"
  longitude :: "real option"

text \<open>
  A dict keeps its keys in insertion order: an association list. \<open>d[k]\<close> raises
  \<open>KeyError\<close> on a missing key; \<open>d[k] = v\<close> overwrites in place or appends.
\<close>

definition getitem :: "(string \<times> 'v) list \<Rightarrow> string \<Rightarrow> exn + 'v" where
  "getitem d k = (case map_of d k of None \<Rightarrow> Inl KeyError | Some v \<Rightarrow> Inr v)"

definition setitem :: "(string \<times> 'v) list \<Rightarrow> string \<Rightarrow> 'v \<Rightarrow> (string \<times> 'v) list" where
  "setitem d k v =
     (if k \<in> set (map fst d) then map (\<lambda>(k', v'). if k' = k then (k', v) else (k', v')) d
      else d @ [(k, v)])"

section \<open>aqi\_map\_visualization.py: \<open>AQIMapVisualizer\<close>\<close>

definition aqi_colors :: "(string \<times> string) list" where
  "aqi_colors =
    [(''good'', ''#00E400''),
     (''moderate'', ''#FFFF00''),
     (''unhealthy_sensitive'', ''#FF7E00''),
     (''unhealthy'', ''#FF0000''),
     (''very_unhealthy'', ''#8F3F97''),
     (''hazardous'', ''#7E0023'')]"

definition aqi_ranges :: "(string \<times> int \<times> int) list" where
  "aqi_ranges =
    [(''good'', (0, 50)),
     (''moderate'', (51, 100)),
     (''unhealthy_sensitive'', (101, 150)),
     (''unhealthy'', (151, 200)),
     (''very_unhealthy'', (201, 300)),
     (''hazardous'', (301, 500))]"

definition aqi_labels :: "(string \<times> ustr) list" where
  "aqi_labels =
    [(''good'', [0x826F, 0x597D] @ ascii '' (0-50)''),
     (''moderate'', [0x666E, 0x901A] @ ascii '' (51-100)''),
     (''unhealthy_sensitive'',
        [0x5C0D, 0x654F, 0x611F, 0x65CF, 0x7FA4, 0x4E0D, 0x5065, 0x5EB7] @ ascii '' (101-150)''),
     (''unhealthy'',
        [0x5C0D, 0x6240, 0x6709, 0x65CF, 0x7FA4, 0x4E0D, 0x5065, 0x5EB7] @ ascii '' (151-200)''),
     (''very_unhealthy'', [0x975E, 0x5E38, 0x4E0D, 0x5065, 0x5EB7] @ ascii '' (201-300)''),
     (''hazardous'', [0x5371, 0x5BB3] @ ascii '' (301-500)'')]"

text \<open>The two labels outside the table: "no data" and "out of range".\<close>

definition label_no_data :: ustr where
  "label_no_data = [0x7121, 0x8CC7, 0x6599]"

definition label_out_of_range :: ustr where
  "label_out_of_range = [0x8D85, 0x51FA, 0x7BC4, 0x570D]"

text \<open>
  \<open>get_aqi_color\<close>: \<open>None\<close> is grey; otherwise the ranges are scanned in the order of
  the table and the first one that holds the value gives the colour; grey again when the
  loop ends without a hit.
\<close>

fun color_scan :: "(string \<times> int \<times> int) list \<Rightarrow> int \<Rightarrow> exn + string" where
  "color_scan [] aqi_value = Inr ''#808080''"
| "color_scan ((category, min_val, max_val) # rest) aqi_value =
     (if min_val \<le> aqi_value \<and> aqi_value \<le> max_val then getitem aqi_colors category
      else color_scan rest aqi_value)"

definition get_aqi_color :: "int option \<Rightarrow> exn + string" where
  "get_aqi_color aqi_value =
     (case aqi_value of None \<Rightarrow> Inr ''#808080'' | Some v \<Rightarrow> color_scan aqi_ranges v)"

fun category_scan :: "(string \<times> int \<times> int) list \<Rightarrow> int \<Rightarrow> exn + ustr" where
  "category_scan [] aqi_value = Inr label_out_of_range"
| "category_scan ((category, min_val, max_val) # rest) aqi_value =
     (if min_val \<le> aqi_value \<and> aqi_value \<le> max_val then getitem aqi_labels category
      else category_scan rest aqi_value)"

definition get_aqi_category :: "int option \<Rightarrow> exn + ustr" where
  "get_aqi_category aqi_value =
     (case aqi_value of None \<Rightarrow> Inr label_no_data | Some v \<Rightarrow> category_scan aqi_ranges v)"

text \<open>
  \<open>create_statistics_summary\<close>. The count of a band is the number of rows whose
  \<open>aqi\<close> cell lies in its range; a comparison with a missing cell is false.
\<close>

definition in_band :: "int \<Rightarrow> int \<Rightarrow> reading \<Rightarrow> bool" where
  "in_band min_val max_val r =
     (case aqi r of None \<Rightarrow> False | Some v \<Rightarrow> v \<ge> min_val \<and> v \<le> max_val)"

definition band_counts :: "reading list \<Rightarrow> (string \<times> nat) list" where
  "band_counts df =
     fold (\<lambda>(category, min_val, max_val) category_counts.
             setitem category_counts category (length (filter (in_band min_val max_val) df)))
          aqi_ranges []"

definition missing_count :: "reading list \<Rightarrow> nat" where
  "missing_count df = length (filter (\<lambda>r. aqi r = None) df)"

definition category_distribution :: "reading list \<Rightarrow> (string \<times> nat) list" where
  "category_distribution df =
     (if missing_count df > 0 then setitem (band_counts df) ''missing'' (missing_count df)
      else band_counts df)"

text \<open>
  The statistics are taken over the cells that are present. Floats are idealised as
  rationals: \<open>mean\<close> is the exact quotient, \<open>round(x, 1)\<close> rounds the tenths half to
  even, \<open>int(x)\<close> truncates towards zero, and the median of an even number of values is
  the mean of the two middle ones.
\<close>

definition valid_aqi :: "reading list \<Rightarrow> int list" where
  "valid_aqi df = map the (filter (\<lambda>c. c \<noteq> None) (map aqi df))"

definition series_max :: "int list \<Rightarrow> int" where
  "series_max xs = fold max (tl xs) (hd xs)"

definition series_min :: "int list \<Rightarrow> int" where
  "series_min xs = fold min (tl xs) (hd xs)"

definition series_mean :: "int list \<Rightarrow> rat" where
  "series_mean xs = of_int (sum_list xs) / of_nat (length xs)"

definition series_median :: "int list \<Rightarrow> rat" where
  "series_median xs =
     (let s = sort xs; n = length s
      in if odd n then of_int (s ! (n div 2))
         else (of_int (s ! (n div 2 - 1)) + of_int (s ! (n div 2))) / 2)"

definition round_half_even :: "'a::floor_ceiling \<Rightarrow> int" where
  "round_half_even q =
     (let f = \<lfloor>q\<rfloor>; r = q - of_int f
      in if r < 1 / 2 then f else if 1 / 2 < r then f + 1 else if even f then f else f + 1)"

definition round1 :: "rat \<Rightarrow> rat" where
  "round1 q = of_int (round_half_even (q * 10)) / 10"

definition trunc :: "rat \<Rightarrow> int" where
  "trunc q = (if 0 \<le> q then \<lfloor>q\<rfloor> else \<lceil>q\<rceil>)"

record aqi_statistics =
  max_aqi :: "int option"
  min_aqi :: "int option"
  avg_aqi :: "rat option"
  median_aqi :: "int option"

record map_summary =
  total_stations :: nat
  stations_with_data :: nat
  stations_missing_data :: nat
  category_dist :: "(string \<times> nat) list"
  statistics :: aqi_statistics

text \<open>
  The summary without its \<open>timestamp\<close> entry (the clock is not part of the model).
  \<open>None\<close> for the data frame returns \<open>None\<close>.
\<close>

definition create_statistics_summary :: "reading list option \<Rightarrow> map_summary option" where
  "create_statistics_summary df_opt =
     (case df_opt of
        None \<Rightarrow> None
      | Some df \<Rightarrow>
          (let v = valid_aqi df
           in Some \<lparr> total_stations = length df,
                     stations_with_data = length v,
                     stations_missing_data = missing_count df,
                     category_dist = category_distribution df,
                     statistics =
                       \<lparr> max_aqi = (if length v > 0 then Some (series_max v) else None),
                         min_aqi = (if length v > 0 then Some (series_min v) else None),
                         avg_aqi = (if length v > 0 then Some (round1 (series_mean v)) else None),
                         median_aqi =
                           (if length v > 0 then Some (trunc (series_median v)) else None) \<rparr> \<rparr>))"

section \<open>aqi\_monitor.py: \<open>AQIMonitor\<close>\<close>

text \<open>
  A raw record is a dict of the parsed response. \<open>record.get(k)\<close> is \<open>None\<close> for an
  absent key, \<open>record.get(k, d)\<close> is \<open>d\<close>. \<open>truthy\<close> is the truth value Python gives
  a value in a condition.
\<close>

type_synonym raw_record = "string \<rightharpoonup> raw"

definition get :: "raw_record \<Rightarrow> string \<Rightarrow> raw" where
  "get record k = (case record k of None \<Rightarrow> JNull | Some v \<Rightarrow> v)"

definition get_default :: "raw_record \<Rightarrow> string \<Rightarrow> raw \<Rightarrow> raw" where
  "get_default record k d = (case record k of None \<Rightarrow> d | Some v \<Rightarrow> v)"

fun truthy :: "raw \<Rightarrow> bool" where
  "truthy JNull = False"
| "truthy (JBool b) = b"
| "truthy (JInt i) = (i \<noteq> 0)"
| "truthy (JFloat x) = (x \<noteq> 0)"
| "truthy (JStr s) = (s \<noteq> [])"
| "truthy (JArr xs) = (xs \<noteq> [])"
| "truthy (JObj kvs) = (kvs \<noteq> [])"

text \<open>
  One field of \<open>process_aqi_data\<close>: \<open>conv(record.get(k, 0)) if record.get(k) else None\<close>.
  The built-ins \<open>int\<close> and \<open>float\<close> are parameters \<open>py_int\<close> and \<open>py_float\<close>: any
  function from a value to a result or an exception.
\<close>

definition coerce :: "(raw \<Rightarrow> exn + 'a) \<Rightarrow> raw_record \<Rightarrow> string \<Rightarrow> exn + 'a option" where
  "coerce conv record k =
     (if truthy (get record k)
      then (case conv (get_default record k (JInt 0)) of Inl e \<Rightarrow> Inl e | Inr x \<Rightarrow> Inr (Some x))
      else Inr None)"

definition bind :: "exn + 'a \<Rightarrow> ('a \<Rightarrow> exn + 'b) \<Rightarrow> exn + 'b" where
  "bind m f = (case m of Inl e \<Rightarrow> Inl e | Inr x \<Rightarrow> f x)"

text \<open>
  The dict display of the loop body: the entries are evaluated in the order written, and
  the first exception leaves the display.
\<close>

definition process_record ::
  "(raw \<Rightarrow> exn + int) \<Rightarrow> (raw \<Rightarrow> exn + real) \<Rightarrow> raw_record \<Rightarrow> exn + reading" where
  "process_record py_int py_float record =
     bind (coerce py_int record ''aqi'') (\<lambda>v_aqi.
     bind (coerce py_float record ''pm2.5'') (\<lambda>v_pm25.
     bind (coerce py_float record ''pm10'') (\<lambda>v_pm10.
     bind (coerce py_float record ''so2'') (\<lambda>v_so2.
     bind (coerce py_float record ''no2'') (\<lambda>v_no2.
     bind (coerce py_float record ''co'') (\<lambda>v_co.
     bind (coerce py_float record ''o3'') (\<lambda>v_o3.
     bind (coerce py_float record ''windspeed'') (\<lambda>v_wind_speed.
     bind (coerce py_float record ''winddirec'') (\<lambda>v_wind_direction.
     bind (coerce py_float record ''latitude'') (\<lambda>v_latitude.
     bind (coerce py_float record ''longitude'') (\<lambda>v_longitude.
       Inr \<lparr> site_id = get record ''siteid'',
             site_name = get record ''sitename'',
             county = get record ''county'',
             aqi = v_aqi,
             pollutant = get record ''pollutant'',
             status = get record ''status'',
             pm25 = v_pm25,
             pm10 = v_pm10,
             so2 = v_so2,
             no2 = v_no2,
             co = v_co,
             o3 = v_o3,
             wind_speed = v_wind_speed,
             wind_direction = v_wind_direction,
             data_time = get record ''datacreationdate'',
             latitude = v_latitude,
             longitude = v_longitude \<rparr>)))))))))))"

text \<open>
  The loop of \<open>process_aqi_data\<close>: a record that raises \<open>ValueError\<close> or \<open>TypeError\<close>
  is skipped (\<open>continue\<close>), any other exception leaves the function, a record that
  raises nothing is appended.
\<close>

fun process_loop ::
  "(raw \<Rightarrow> exn + int) \<Rightarrow> (raw \<Rightarrow> exn + real) \<Rightarrow> raw_record list \<Rightarrow> exn + reading list" where
  "process_loop py_int py_float [] = Inr []"
| "process_loop py_int py_float (record # rest) =
     (case process_record py_int py_float record of
        Inr processed_record \<Rightarrow>
          bind (process_loop py_int py_float rest) (\<lambda>ps. Inr (processed_record # ps))
      | Inl e \<Rightarrow>
          if e = ValueError \<or> e = TypeError then process_loop py_int py_float rest else Inl e)"

text \<open>\<open>raw_data\<close> is \<open>None\<close> (a failed fetch) or a list; \<open>not raw_data\<close> holds for both
  \<open>None\<close> and the empty list.\<close>

definition process_aqi_data ::
  "(raw \<Rightarrow> exn + int) \<Rightarrow> (raw \<Rightarrow> exn + real) \<Rightarrow> raw_record list option
     \<Rightarrow> exn + reading list option" where
  "process_aqi_data py_int py_float raw_data =
     (case raw_data of
        None \<Rightarrow> Inr None
      | Some rs \<Rightarrow>
          if rs = [] then Inr None
          else bind (process_loop py_int py_float rs) (\<lambda>processed_data. Inr (Some processed_data)))"

text \<open>
  \<open>identify_high_aqi_stations\<close>. The condition \<open>station['aqi'] and station['aqi'] > threshold\<close>
  tests the truth value of the AQI first: \<open>None\<close> and \<open>0\<close> are both false. The sort
  \<open>sort(key=..., reverse=True)\<close> is Python's stable sort in descending order of the key:
  elements with equal keys keep their order. Every element of the filtered list has an
  AQI, which is its key.
\<close>

definition aqi_truthy :: "int option \<Rightarrow> bool" where
  "aqi_truthy a = (case a of None \<Rightarrow> False | Some v \<Rightarrow> v \<noteq> 0)"

definition is_high :: "real \<Rightarrow> reading \<Rightarrow> bool" where
  "is_high threshold station =
     (aqi_truthy (aqi station) \<and>
      (case aqi station of None \<Rightarrow> False | Some v \<Rightarrow> threshold < real_of_int v))"

definition aqi_key :: "reading \<Rightarrow> int" where
  "aqi_key x = (case aqi x of None \<Rightarrow> 0 | Some v \<Rightarrow> v)"

definition sort_reverse :: "('a \<Rightarrow> int) \<Rightarrow> 'a list \<Rightarrow> 'a list" where
  "sort_reverse key xs = sort_key (\<lambda>x. - key x) xs"

definition identify_high_aqi_stations :: "reading list option \<Rightarrow> real \<Rightarrow> reading list" where
  "identify_high_aqi_stations processed_data threshold =
     (case processed_data of
        None \<Rightarrow> []
      | Some ps \<Rightarrow> if ps = [] then [] else sort_reverse aqi_key (filter (is_high threshold) ps))"

text \<open>
  \<open>generate_summary\<close>, without its \<open>data_timestamp\<close> entry. Divisions are exact
  (floats idealised as rationals). The field names carry a prime: the summary of the map
  script has fields of the same names.
\<close>

record monitor_summary =
  total_stations' :: nat
  stations_with_aqi_data' :: nat
  high_aqi_stations' :: nat
  percentage_high_aqi' :: rat
  max_aqi' :: "int option"
  min_aqi' :: "int option"
  avg_aqi' :: "rat option"

definition generate_summary :: "reading list option \<Rightarrow> reading list \<Rightarrow> monitor_summary option" where
  "generate_summary processed_data high_aqi_stations =
     (case processed_data of
        None \<Rightarrow> None
      | Some ps \<Rightarrow>
          if ps = [] then None
          else
            (let total_stations = length ps;
                 high_aqi_count = length high_aqi_stations;
                 aqi_values = map the (filter (\<lambda>a. a \<noteq> None) (map aqi ps))
             in Some \<lparr> total_stations' = total_stations,
                       stations_with_aqi_data' = length aqi_values,
                       high_aqi_stations' = high_aqi_count,
                       percentage_high_aqi' =
                         (if total_stations > 0
                          then (of_nat high_aqi_count / of_nat total_stations) * 100 else 0),
                       max_aqi' = (if aqi_values \<noteq> [] then Some (series_max aqi_values) else None),
                       min_aqi' = (if aqi_values \<noteq> [] then Some (series_min aqi_values) else None),
                       avg_aqi' =
                         (if aqi_values \<noteq> []
                          then Some (of_int (sum_list aqi_values) / of_nat (length aqi_values))
                          else None) \<rparr>))"

text \<open>
  The display of \<open>run_monitoring\<close>. A format specification \<open>:.1f\<close> applied to \<open>None\<close>
  raises \<open>TypeError\<close>; applied to a number it shows the number rounded to one decimal.
  A value without a format specification is shown as it is, \<open>None\<close> included.
\<close>

definition format_1f :: "rat option \<Rightarrow> exn + rat" where
  "format_1f x = (case x of None \<Rightarrow> Inl TypeError | Some q \<Rightarrow> Inr (round1 q))"

record summary_display =
  shown_total :: nat
  shown_high :: nat
  shown_percentage :: rat
  shown_max :: "int option"
  shown_min :: "int option"
  shown_average :: rat

definition display_summary :: "monitor_summary \<Rightarrow> exn + summary_display" where
  "display_summary summary =
     bind (format_1f (Some (percentage_high_aqi' summary))) (\<lambda>p.
     bind (format_1f (avg_aqi' summary)) (\<lambda>a.
       Inr \<lparr> shown_total = total_stations' summary,
             shown_high = high_aqi_stations' summary,
             shown_percentage = p,
             shown_max = max_aqi' summary,
             shown_min = min_aqi' summary,
             shown_average = a \<rparr>))"

text \<open>
  \<open>run_monitoring\<close> from the fetched data to the end of the summary display: \<open>None\<close>
  when the function returns early ("Failed to fetch data", "Failed to process data").
\<close>

definition run_monitoring ::
  "(raw \<Rightarrow> exn + int) \<Rightarrow> (raw \<Rightarrow> exn + real) \<Rightarrow> raw_record list option
     \<Rightarrow> exn + summary_display option" where
  "run_monitoring py_int py_float raw_data =
     (if raw_data = None \<or> raw_data = Some [] then Inr None
      else
        bind (process_aqi_data py_int py_float raw_data) (\<lambda>processed_data.
          if processed_data = None \<or> processed_data = Some [] then Inr None
          else
            (let high_aqi_stations = identify_high_aqi_stations processed_data 50
             in case generate_summary processed_data high_aqi_stations of
                  None \<Rightarrow> Inl TypeError
                | Some summary \<Rightarrow> bind (display_summary summary) (\<lambda>d. Inr (Some d)))))"

section \<open>distance\_analysis.py: \<open>DistanceAnalyzer\<close>\<close>

text \<open>
  Floats are idealised as real numbers. \<open>math.sqrt\<close> raises \<open>ValueError\<close> on a
  negative argument and \<open>math.asin\<close> outside \<open>[-1, 1]\<close>; \<open>math.radians\<close>
  multiplies by \<open>pi / 180\<close>.
\<close>

definition radians :: "real \<Rightarrow> real" where
  "radians x = x * (pi / 180)"

definition py_sqrt :: "real \<Rightarrow> exn + real" where
  "py_sqrt x = (if x < 0 then Inl ValueError else Inr (sqrt x))"

definition py_asin :: "real \<Rightarrow> exn + real" where
  "py_asin x = (if x < - 1 \<or> 1 < x then Inl ValueError else Inr (arcsin x))"

definition haversine_distance :: "real \<Rightarrow> real \<Rightarrow> real \<Rightarrow> real \<Rightarrow> exn + real" where
  "haversine_distance lat1_deg lon1_deg lat2_deg lon2_deg =
     (let lat1 = radians lat1_deg; lon1 = radians lon1_deg;
          lat2 = radians lat2_deg; lon2 = radians lon2_deg;
          dlat = lat2 - lat1;
          dlon = lon2 - lon1;
          a = (sin (dlat / 2))\<^sup>2 + cos lat1 * cos lat2 * (sin (dlon / 2))\<^sup>2
      in bind (py_sqrt a) (\<lambda>root.
         bind (py_asin root) (\<lambda>angle.
           (let c = 2 * angle; r = 6371 in Inr (c * r)))))"

text \<open>The formula as the specification writes it.\<close>

definition haversine_formula :: "real \<Rightarrow> real \<Rightarrow> real \<Rightarrow> real \<Rightarrow> real" where
  "haversine_formula lat1 lon1 lat2 lon2 =
     2 * 6371 *
       arcsin (sqrt ((sin ((radians lat2 - radians lat1) / 2))\<^sup>2 +
                     cos (radians lat1) * cos (radians lat2) *
                       (sin ((radians lon2 - radians lon1) / 2))\<^sup>2))"

definition taipei_latitude :: real where
  "taipei_latitude = 25.0478"

definition taipei_longitude :: real where
  "taipei_longitude = 121.5170"

text \<open>
  \<open>calculate_distances\<close>: the rows with both coordinates, each paired with its
  \<open>distance_to_taipei\<close> cell, rounded to two decimals (half to even).
\<close>

definition round2 :: "real \<Rightarrow> real" where
  "round2 x = of_int (round_half_even (x * 100)) / 100"

definition has_coordinates :: "reading \<Rightarrow> bool" where
  "has_coordinates r = (latitude r \<noteq> None \<and> longitude r \<noteq> None)"

fun distance_loop :: "reading list \<Rightarrow> exn + (reading \<times> real) list" where
  \<comment> \<open>called on rows that passed \<open>dropna\<close> only: both coordinates are present\<close>
  "distance_loop [] = Inr []"
| "distance_loop (station # rest) =
     bind (haversine_distance (the (latitude station)) (the (longitude station))
             taipei_latitude taipei_longitude) (\<lambda>distance.
     bind (distance_loop rest) (\<lambda>ds. Inr ((station, round2 distance) # ds)))"

definition calculate_distances :: "reading list option \<Rightarrow> exn + (reading \<times> real) list option" where
  "calculate_distances df =
     (case df of
        None \<Rightarrow> Inr None
      | Some rows \<Rightarrow>
          bind (distance_loop (filter has_coordinates rows)) (\<lambda>valid_stations.
            Inr (Some valid_stations)))"

text \<open>
  The statistics of a pandas series: on an empty series \<open>mean\<close>, \<open>median\<close>, \<open>min\<close>,
  \<open>max\<close> and \<open>std\<close> are \<open>NaN\<close> (\<open>None\<close> here), and \<open>std\<close> (the sample standard
  deviation) also on a single value; \<open>idxmin\<close> and \<open>idxmax\<close> raise \<open>ValueError\<close> on an
  empty series and give the first position of the extreme value otherwise.
\<close>

definition dist_mean :: "real list \<Rightarrow> real option" where
  "dist_mean xs = (if xs = [] then None else Some (sum_list xs / of_nat (length xs)))"

definition dist_median :: "real list \<Rightarrow> real option" where
  "dist_median xs =
     (if xs = [] then None
      else (let s = sort xs; n = length s
            in Some (if odd n then s ! (n div 2) else (s ! (n div 2 - 1) + s ! (n div 2)) / 2)))"

definition dist_min :: "real list \<Rightarrow> real option" where
  "dist_min xs = (if xs = [] then None else Some (fold min (tl xs) (hd xs)))"

definition dist_max :: "real list \<Rightarrow> real option" where
  "dist_max xs = (if xs = [] then None else Some (fold max (tl xs) (hd xs)))"

definition dist_std :: "real list \<Rightarrow> real option" where
  "dist_std xs =
     (if length xs \<le> 1 then None
      else (let m = sum_list xs / of_nat (length xs)
            in Some (sqrt (sum_list (map (\<lambda>x. (x - m)\<^sup>2) xs) / of_nat (length xs - 1)))))"

fun first_position :: "real \<Rightarrow> real list \<Rightarrow> nat" where
  "first_position v [] = 0"
| "first_position v (x # xs) = (if x = v then 0 else Suc (first_position v xs))"

definition idxmin :: "real list \<Rightarrow> exn + nat" where
  "idxmin xs =
     (if xs = [] then Inl ValueError else Inr (first_position (fold min (tl xs) (hd xs)) xs))"

definition idxmax :: "real list \<Rightarrow> exn + nat" where
  "idxmax xs =
     (if xs = [] then Inl ValueError else Inr (first_position (fold max (tl xs) (hd xs)) xs))"

record analysis =
  total_stations_d :: nat
  avg_distance :: "real option"
  median_distance :: "real option"
  min_distance :: "real option"
  max_distance :: "real option"
  std_distance :: "real option"
  nearest_station :: "reading \<times> real"
  farthest_station :: "reading \<times> real"

text \<open>
  \<open>analyze_distance_distribution\<close>: the entries of the dict display are evaluated in
  the order written; the first six never raise, the last two may.
\<close>

definition analyze_distance_distribution ::
  "(reading \<times> real) list option \<Rightarrow> exn + analysis option" where
  "analyze_distance_distribution df_with_distance =
     (case df_with_distance of
        None \<Rightarrow> Inr None
      | Some rows \<Rightarrow>
          (let distances = map snd rows
           in bind (idxmin distances) (\<lambda>i_min.
              bind (idxmax distances) (\<lambda>i_max.
                Inr (Some \<lparr> total_stations_d = length rows,
                            avg_distance = dist_mean distances,
                            median_distance = dist_median distances,
                            min_distance = dist_min distances,
                            max_distance = dist_max distances,
                            std_distance = dist_std distances,
                            nearest_station = rows ! i_min,
                            farthest_station = rows ! i_max \<rparr>)))))"

text \<open>
  \<open>run_analysis\<close> from the loaded data frame to the analysis: \<open>None\<close> when it returns
  early ("Failed to load data").
\<close>

definition run_analysis :: "reading list option \<Rightarrow> exn + analysis option" where
  "run_analysis df =
     (if df = None then Inr None
      else bind (calculate_distances df) (\<lambda>df_with_distance.
             if df_with_distance = None then Inr None
             else analyze_distance_distribution df_with_distance))"

section \<open>Notions used in the properties\<close>

text \<open>The value lies in the inclusive range of a row of the band table.\<close>

definition in_range :: "int \<Rightarrow> string \<times> int \<times> int \<Rightarrow> bool" where
  "in_range v band = (fst (snd band) \<le> v \<and> v \<le> snd (snd band))"

text \<open>A reading whose AQI is present and lies in none of the six ranges.\<close>

definition out_of_range :: "reading \<Rightarrow> bool" where
  "out_of_range r = (case aqi r of None \<Rightarrow> False | Some v \<Rightarrow> v < 0 \<or> 500 < v)"

text \<open>The AQI is present and strictly greater than the threshold.\<close>

definition above_threshold :: "real \<Rightarrow> reading \<Rightarrow> bool" where
  "above_threshold threshold r =
     (case aqi r of None \<Rightarrow> False | Some v \<Rightarrow> threshold < real_of_int v)"

text \<open>A reading with the given AQI and every other field empty, for the examples.\<close>

definition station_with_aqi :: "int option \<Rightarrow> reading" where
  "station_with_aqi a =
     \<lparr> site_id = JNull, site_name = JNull, county = JNull, aqi = a, pollutant = JNull,
       status = JNull, pm25 = None, pm10 = None, so2 = None, no2 = None, co = None, o3 = None,
       wind_speed = None, wind_direction = None, data_time = JNull, latitude = None,
       longitude = None \<rparr>"











section \<open>The classifier\<close>

lemma band_cases:
  fixes v :: int
  assumes "0 \<le> v" "v \<le> 500"
  obtains "0 \<le> v \<and> v \<le> 50" | "51 \<le> v \<and> v \<le> 100" | "101 \<le> v \<and> v \<le> 150"
    | "151 \<le> v \<and> v \<le> 200" | "201 \<le> v \<and> v \<le> 300" | "301 \<le> v \<and> v \<le> 500"
  using assms by linarith

lemma get_aqi_color_Some:
  "get_aqi_color (Some v) =
    (if 0 \<le> v \<and> v \<le> 50 then getitem aqi_colors ''good''
     else if 51 \<le> v \<and> v \<le> 100 then getitem aqi_colors ''moderate''
     else if 101 \<le> v \<and> v \<le> 150 then getitem aqi_colors ''unhealthy_sensitive''
     else if 151 \<le> v \<and> v \<le> 200 then getitem aqi_colors ''unhealthy''
     else if 201 \<le> v \<and> v \<le> 300 then getitem aqi_colors ''very_unhealthy''
     else if 301 \<le> v \<and> v \<le> 500 then getitem aqi_colors ''hazardous''
     else Inr ''#808080'')"
  by (simp add: get_aqi_color_def aqi_ranges_def)

lemma get_aqi_category_Some:
  "get_aqi_category (Some v) =
    (if 0 \<le> v \<and> v \<le> 50 then getitem aqi_labels ''good''
     else if 51 \<le> v \<and> v \<le> 100 then getitem aqi_labels ''moderate''
     else if 101 \<le> v \<and> v \<le> 150 then getitem aqi_labels ''unhealthy_sensitive''
     else if 151 \<le> v \<and> v \<le> 200 then getitem aqi_labels ''unhealthy''
     else if 201 \<le> v \<and> v \<le> 300 then getitem aqi_labels ''very_unhealthy''
     else if 301 \<le> v \<and> v \<le> 500 then getitem aqi_labels ''hazardous''
     else Inr label_out_of_range)"
  by (simp add: get_aqi_category_def aqi_ranges_def)

lemma band_of_value:
  assumes "0 \<le> v" "v \<le> 500"
  shows "\<exists>category min_val max_val color label.
           filter (in_range v) aqi_ranges = [(category, min_val, max_val)] \<and>
           getitem aqi_colors category = Inr color \<and> get_aqi_color (Some v) = Inr color \<and>
           getitem aqi_labels category = Inr label \<and> get_aqi_category (Some v) = Inr label"
  using assms
proof (cases v rule: band_cases)
  case 1
  then show ?thesis
    by (simp add: get_aqi_color_Some get_aqi_category_Some)
       (simp add: aqi_ranges_def in_range_def aqi_colors_def aqi_labels_def getitem_def)
next
  case 2
  then show ?thesis
    by (simp add: get_aqi_color_Some get_aqi_category_Some)
       (simp add: aqi_ranges_def in_range_def aqi_colors_def aqi_labels_def getitem_def)
next
  case 3
  then show ?thesis
    by (simp add: get_aqi_color_Some get_aqi_category_Some)
       (simp add: aqi_ranges_def in_range_def aqi_colors_def aqi_labels_def getitem_def)
next
  case 4
  then show ?thesis
    by (simp add: get_aqi_color_Some get_aqi_category_Some)
       (simp add: aqi_ranges_def in_range_def aqi_colors_def aqi_labels_def getitem_def)
next
  case 5
  then show ?thesis
    by (simp add: get_aqi_color_Some get_aqi_category_Some)
       (simp add: aqi_ranges_def in_range_def aqi_colors_def aqi_labels_def getitem_def)
next
  case 6
  then show ?thesis
    by (simp add: get_aqi_color_Some get_aqi_category_Some)
       (simp add: aqi_ranges_def in_range_def aqi_colors_def aqi_labels_def getitem_def)
qed

lemma outside_bands:
  assumes "w < 0 \<or> 500 < w"
  shows "filter (in_range w) aqi_ranges = []"
    and "get_aqi_category (Some w) = Inr label_out_of_range"
    and "get_aqi_color (Some w) = Inr ''#808080''"
  using assms
  by (auto simp add: get_aqi_color_Some get_aqi_category_Some aqi_ranges_def in_range_def)

lemma markers_distinct:
  "label_no_data \<noteq> label_out_of_range"
  "label_no_data \<notin> snd ` set aqi_labels"
  "label_out_of_range \<notin> snd ` set aqi_labels"
  "''#808080'' \<notin> snd ` set aqi_colors"
  by (simp_all add: label_no_data_def label_out_of_range_def aqi_labels_def aqi_colors_def)

text \<open>
  C1. The six ranges are [0,50], [51,100], [101,150], [151,200], [201,300] and [301,500].
  Every integer \<open>v\<close> from 0 to 500 lies in exactly one of them, and \<open>get_aqi_color\<close> and
  \<open>get_aqi_category\<close> return the colour and the label of that band. \<open>None\<close> gives the
  "no data" label and grey. Every integer outside the ranges, \<open>-1\<close> and \<open>501\<close> among
  them, lies in no band and gives the "out of range" label and grey, with no exception.
  The two labels differ from each other and from every band label, and grey is the colour
  of no band.
\<close>

theorem classifier_partitions_0_500:
  "map snd aqi_ranges = [(0, 50), (51, 100), (101, 150), (151, 200), (201, 300), (301, 500)] \<and>
   (0 \<le> v \<and> v \<le> 500 \<longrightarrow>
      (\<exists>category min_val max_val color label.
          filter (in_range v) aqi_ranges = [(category, min_val, max_val)] \<and>
          getitem aqi_colors category = Inr color \<and> get_aqi_color (Some v) = Inr color \<and>
          getitem aqi_labels category = Inr label \<and> get_aqi_category (Some v) = Inr label)) \<and>
   get_aqi_category None = Inr label_no_data \<and>
   get_aqi_color None = Inr ''#808080'' \<and>
   get_aqi_category (Some (- 1)) = Inr label_out_of_range \<and>
   get_aqi_category (Some 501) = Inr label_out_of_range \<and>
   get_aqi_color (Some (- 1)) = Inr ''#808080'' \<and>
   get_aqi_color (Some 501) = Inr ''#808080'' \<and>
   (w < 0 \<or> 500 < w \<longrightarrow>
      filter (in_range w) aqi_ranges = [] \<and>
      get_aqi_category (Some w) = Inr label_out_of_range \<and>
      get_aqi_color (Some w) = Inr ''#808080'') \<and>
   label_no_data \<noteq> label_out_of_range \<and>
   label_no_data \<notin> snd ` set aqi_labels \<and>
   label_out_of_range \<notin> snd ` set aqi_labels \<and>
   ''#808080'' \<notin> snd ` set aqi_colors"
proof -
  have ranges: "map snd aqi_ranges = [(0, 50), (51, 100), (101, 150), (151, 200), (201, 300), (301, 500)]"
    by (simp add: aqi_ranges_def)
  have none: "get_aqi_category None = Inr label_no_data" "get_aqi_color None = Inr ''#808080''"
    by (simp_all add: get_aqi_category_def get_aqi_color_def)
  have below: "get_aqi_category (Some (- 1)) = Inr label_out_of_range"
      "get_aqi_color (Some (- 1)) = Inr ''#808080''"
    using outside_bands(2,3) [of "- 1"] by simp_all
  have above: "get_aqi_category (Some 501) = Inr label_out_of_range"
      "get_aqi_color (Some 501) = Inr ''#808080''"
    using outside_bands(2,3) [of 501] by simp_all
  show ?thesis
    using ranges none below above band_of_value [of v] outside_bands [of w] markers_distinct
    by blast
qed

theorem classifier_partitions_0_500_witness:
  "(0::int) \<le> 75 \<and> (75::int) \<le> 500 \<and>
   filter (in_range 75) aqi_ranges = [(''moderate'', 51, 100)] \<and>
   get_aqi_color (Some 75) = Inr ''#FFFF00'' \<and>
   get_aqi_category (Some 75) = Inr ([0x666E, 0x901A] @ ascii '' (51-100)'') \<and>
   ((- 7::int) < 0 \<or> (500::int) < - 7) \<and>
   filter (in_range (- 7)) aqi_ranges = [] \<and>
   get_aqi_category (Some (- 7)) = Inr label_out_of_range"
proof -
  have "filter (in_range 75) aqi_ranges = [(''moderate'', 51, 100)]"
    by (simp add: aqi_ranges_def in_range_def)
  moreover have "get_aqi_color (Some 75) = Inr ''#FFFF00''"
    by (simp add: get_aqi_color_Some aqi_colors_def getitem_def)
  moreover have "get_aqi_category (Some 75) = Inr ([0x666E, 0x901A] @ ascii '' (51-100)'')"
    by (simp add: get_aqi_category_Some aqi_labels_def getitem_def)
  ultimately show ?thesis
    using classifier_partitions_0_500 [of 75 "- 7"] by simp
qed

text \<open>
  C9. For every AQI value below 0 or above 500, \<open>get_aqi_color\<close> returns \<open>#808080\<close>,
  the colour it returns for \<open>None\<close>, while \<open>get_aqi_category\<close> returns the "out of
  range" label for the value and the different "no data" label for \<open>None\<close>.
\<close>

theorem out_of_range_color_same_as_missing:
  assumes "v < 0 \<or> 500 < v"
  shows "get_aqi_color (Some v) = Inr ''#808080'' \<and>
         get_aqi_color None = Inr ''#808080'' \<and>
         get_aqi_color (Some v) = get_aqi_color None \<and>
         get_aqi_category (Some v) = Inr label_out_of_range \<and>
         get_aqi_category None = Inr label_no_data \<and>
         get_aqi_category (Some v) \<noteq> get_aqi_category None"
proof -
  have "get_aqi_color None = Inr ''#808080''" "get_aqi_category None = Inr label_no_data"
    by (simp_all add: get_aqi_color_def get_aqi_category_def)
  with outside_bands(2,3) [OF assms] markers_distinct(1) show ?thesis
    by simp
qed

theorem out_of_range_color_same_as_missing_witness:
  "((501::int) < 0 \<or> (500::int) < 501) \<and>
   get_aqi_color (Some 501) = get_aqi_color None \<and>
   get_aqi_category (Some 501) \<noteq> get_aqi_category None"
proof -
  have h: "(501::int) < 0 \<or> (500::int) < 501" by simp
  from out_of_range_color_same_as_missing [OF h] h show ?thesis by blast
qed

section \<open>The band counter\<close>

lemma band_counts_unfold:
  "band_counts df =
     [(''good'', length (filter (in_band 0 50) df)),
      (''moderate'', length (filter (in_band 51 100) df)),
      (''unhealthy_sensitive'', length (filter (in_band 101 150) df)),
      (''unhealthy'', length (filter (in_band 151 200) df)),
      (''very_unhealthy'', length (filter (in_band 201 300) df)),
      (''hazardous'', length (filter (in_band 301 500) df))]"
  by (simp add: band_counts_def aqi_ranges_def setitem_def)

lemma category_distribution_unfold:
  "category_distribution df =
     band_counts df @ (if missing_count df > 0 then [(''missing'', missing_count df)] else [])"
  by (simp add: category_distribution_def band_counts_unfold setitem_def)

lemma missing_count_pos: "(0 < missing_count df) = (\<exists>r \<in> set df. aqi r = None)"
  by (auto simp: missing_count_def filter_empty_conv)

lemma bucket_sum:
  "sum_list (map snd (category_distribution df)) =
     length (filter (in_band 0 50) df) + length (filter (in_band 51 100) df) +
     length (filter (in_band 101 150) df) + length (filter (in_band 151 200) df) +
     length (filter (in_band 201 300) df) + length (filter (in_band 301 500) df) +
     missing_count df"
  by (simp add: category_distribution_unfold band_counts_unfold)

lemma bucket_total:
  "length (filter (in_band 0 50) df) + length (filter (in_band 51 100) df) +
   length (filter (in_band 101 150) df) + length (filter (in_band 151 200) df) +
   length (filter (in_band 201 300) df) + length (filter (in_band 301 500) df) +
   missing_count df + length (filter out_of_range df) = length df"
proof (induction df)
  case Nil
  show ?case by (simp add: missing_count_def)
next
  case (Cons r df)
  show ?case
  proof (cases "aqi r")
    case None
    with Cons show ?thesis by (simp add: missing_count_def in_band_def out_of_range_def)
  next
    case (Some v)
    with Cons show ?thesis by (simp add: missing_count_def in_band_def out_of_range_def)
  qed
qed

lemma one_bucket:
  "length (filter (\<lambda>(category, min_val, max_val). in_band min_val max_val r) aqi_ranges) +
     (if aqi r = None then 1 else 0) \<le> 1"
  by (cases "aqi r") (simp_all add: aqi_ranges_def in_band_def)

lemma summary_category_dist:
  "map_option category_dist (create_statistics_summary (Some df)) = Some (category_distribution df)"
  "map_option total_stations (create_statistics_summary (Some df)) = Some (length df)"
  by (simp_all add: create_statistics_summary_def Let_def)

text \<open>
  C2, as the claim states it, fails: a reading with AQI 501 is counted in no band and is
  not missing, so in the summary of a data set holding only that reading the buckets of
  the category distribution sum to 0 while the data set has size 1.
\<close>

theorem band_counts_sum_counterexample:
  "map_option (sum_list \<circ> map snd \<circ> category_dist)
     (create_statistics_summary (Some [station_with_aqi (Some 501)])) = Some 0 \<and>
   map_option total_stations
     (create_statistics_summary (Some [station_with_aqi (Some 501)])) = Some 1 \<and>
   length [station_with_aqi (Some 501)] = 1"
proof -
  have "sum_list (map snd (category_distribution [station_with_aqi (Some 501)])) = 0"
    by (simp add: bucket_sum missing_count_def in_band_def station_with_aqi_def)
  then show ?thesis
    by (simp add: create_statistics_summary_def Let_def)
qed

text \<open>
  C2, amended. \<open>create_statistics_summary\<close> returns a summary whose category
  distribution holds, for each of the six bands in table order, the number of readings
  whose AQI lies in the band's range, followed by the number of readings without AQI
  under \<open>missing\<close> when there is one. These counts sum to the size of the data set
  minus the number of readings whose AQI is present but outside [0,500]; and each reading
  is counted in at most one bucket.
\<close>

theorem band_counts_sum_amended:
  "\<exists>s. create_statistics_summary (Some df) = Some s \<and>
        total_stations s = length df \<and>
        category_dist s =
          map (\<lambda>(category, min_val, max_val).
                 (category, length (filter (in_band min_val max_val) df))) aqi_ranges @
          (if \<exists>r \<in> set df. aqi r = None
           then [(''missing'', length (filter (\<lambda>r. aqi r = None) df))] else []) \<and>
        sum_list (map snd (category_dist s)) + length (filter out_of_range df) = length df \<and>
        length (filter (\<lambda>(category, min_val, max_val). in_band min_val max_val r) aqi_ranges) +
          (if aqi r = None then 1 else 0) \<le> 1"
proof -
  obtain s where s: "create_statistics_summary (Some df) = Some s"
    by (simp add: create_statistics_summary_def Let_def)
  with summary_category_dist [of df]
  have d: "category_dist s = category_distribution df" and t: "total_stations s = length df"
    by simp_all
  have "category_distribution df =
          map (\<lambda>(category, min_val, max_val).
                 (category, length (filter (in_band min_val max_val) df))) aqi_ranges @
          (if \<exists>r \<in> set df. aqi r = None
           then [(''missing'', length (filter (\<lambda>r. aqi r = None) df))] else [])"
    unfolding category_distribution_unfold missing_count_pos
    by (simp add: band_counts_unfold aqi_ranges_def missing_count_def)
  moreover have "sum_list (map snd (category_distribution df)) + length (filter out_of_range df) =
      length df"
    using bucket_total [of df] by (simp add: bucket_sum)
  ultimately show ?thesis
    using s d t one_bucket [of r] by simp
qed

theorem band_counts_sum_amended_witness:
  "map_option (sum_list \<circ> map snd \<circ> category_dist)
     (create_statistics_summary
        (Some [station_with_aqi (Some 42), station_with_aqi None, station_with_aqi (Some 501)])) =
     Some 2 \<and>
   length (filter out_of_range
      [station_with_aqi (Some 42), station_with_aqi None, station_with_aqi (Some 501)]) = 1"
proof -
  let ?df = "[station_with_aqi (Some 42), station_with_aqi None, station_with_aqi (Some 501)]"
  have o: "length (filter out_of_range ?df) = 1"
    by (simp add: out_of_range_def station_with_aqi_def)
  from band_counts_sum_amended [of ?df "station_with_aqi None"]
  obtain s where s: "create_statistics_summary (Some ?df) = Some s"
    and sum: "sum_list (map snd (category_dist s)) + length (filter out_of_range ?df) = length ?df"
    by blast
  from sum o have "sum_list (map snd (category_dist s)) = 2" by simp
  with s o show ?thesis by simp
qed

text \<open>
  C10. The category distribution of the summary that \<open>create_statistics_summary\<close>
  returns has the key \<open>missing\<close> exactly when some reading has no AQI; when every
  reading has one, its keys are the six band names and nothing else.
\<close>

theorem missing_key_iff_null_reading:
  "\<exists>s. create_statistics_summary (Some df) = Some s \<and>
     ((''missing'' \<in> set (map fst (category_dist s))) = (\<exists>r \<in> set df. aqi r = None)) \<and>
     ((\<forall>r \<in> set df. aqi r \<noteq> None) \<longrightarrow>
        map fst (category_dist s) =
          [''good'', ''moderate'', ''unhealthy_sensitive'', ''unhealthy'', ''very_unhealthy'',
           ''hazardous'']) \<and>
     ((\<exists>r \<in> set df. aqi r = None) \<longrightarrow>
        map fst (category_dist s) =
          [''good'', ''moderate'', ''unhealthy_sensitive'', ''unhealthy'', ''very_unhealthy'',
           ''hazardous'', ''missing''])"
proof -
  obtain s where s: "create_statistics_summary (Some df) = Some s"
    by (simp add: create_statistics_summary_def Let_def)
  with summary_category_dist(1) [of df]
  have d: "category_dist s = category_distribution df" by simp
  show ?thesis
  proof (cases "\<exists>r \<in> set df. aqi r = None")
    case True
    then have "0 < missing_count df" by (simp add: missing_count_pos)
    with True s show ?thesis
      by (simp add: d category_distribution_unfold band_counts_unfold)
  next
    case False
    then have "\<not> 0 < missing_count df" by (simp add: missing_count_pos)
    with False s show ?thesis
      by (simp add: d category_distribution_unfold band_counts_unfold)
  qed
qed

theorem missing_key_iff_null_reading_witness:
  "aqi (station_with_aqi (Some 42)) \<noteq> None \<and>
   map_option (map fst \<circ> category_dist)
       (create_statistics_summary (Some [station_with_aqi (Some 42)])) =
     Some [''good'', ''moderate'', ''unhealthy_sensitive'', ''unhealthy'', ''very_unhealthy'',
           ''hazardous''] \<and>
   aqi (station_with_aqi None) = None \<and>
   map_option (map fst \<circ> category_dist)
       (create_statistics_summary (Some [station_with_aqi (Some 42), station_with_aqi None])) =
     Some [''good'', ''moderate'', ''unhealthy_sensitive'', ''unhealthy'', ''very_unhealthy'',
           ''hazardous'', ''missing'']"
proof -
  have a: "\<forall>r \<in> set [station_with_aqi (Some 42)]. aqi r \<noteq> None"
    by (simp add: station_with_aqi_def)
  have b: "\<exists>r \<in> set [station_with_aqi (Some 42), station_with_aqi None]. aqi r = None"
    by (simp add: station_with_aqi_def)
  have c: "aqi (station_with_aqi (Some 42)) \<noteq> None" "aqi (station_with_aqi None) = None"
    by (simp_all add: station_with_aqi_def)
  show ?thesis
    using a b c missing_key_iff_null_reading [of "[station_with_aqi (Some 42)]"]
      missing_key_iff_null_reading [of "[station_with_aqi (Some 42), station_with_aqi None]"]
    by auto
qed

section \<open>The haversine distance\<close>

lemma hav_identity:
  fixes p q d :: real
  shows "(sin ((q - p) / 2))\<^sup>2 + cos p * cos q * (sin (d / 2))\<^sup>2 =
         (sin ((q - p) / 2))\<^sup>2 * (1 - (sin (d / 2))\<^sup>2) + (cos ((p + q) / 2))\<^sup>2 * (sin (d / 2))\<^sup>2"
proof -
  have 1: "cos p * cos q = (cos (p - q) + cos (p + q)) / 2"
    by (simp add: cos_add cos_diff)
  define h where "h = (q - p) / 2"
  have "p - q = - (2 * h)" unfolding h_def by argo
  then have "cos (p - q) = cos (2 * h)" by (simp only: cos_minus)
  then have 2: "cos (p - q) = 1 - 2 * (sin ((q - p) / 2))\<^sup>2"
    by (simp only: cos_double_sin h_def)
  define k where "k = (p + q) / 2"
  have "p + q = 2 * k" unfolding k_def by argo
  then have "cos (p + q) = cos (2 * k)" by simp
  then have 3: "cos (p + q) = 2 * (cos ((p + q) / 2))\<^sup>2 - 1"
    by (simp only: cos_double_cos k_def)
  have c: "cos p * cos q = (cos ((p + q) / 2))\<^sup>2 - (sin ((q - p) / 2))\<^sup>2"
    unfolding 1 2 3 by argo
  show ?thesis unfolding c by (simp add: algebra_simps)
qed

lemma hav_bounds:
  fixes p q d :: real
  defines "a \<equiv> (sin ((q - p) / 2))\<^sup>2 + cos p * cos q * (sin (d / 2))\<^sup>2"
  shows "0 \<le> a" and "a \<le> 1"
proof -
  let ?s = "(sin ((q - p) / 2))\<^sup>2" and ?t = "(sin (d / 2))\<^sup>2" and ?u = "(cos ((p + q) / 2))\<^sup>2"
  have a: "a = ?s * (1 - ?t) + ?u * ?t" unfolding a_def by (rule hav_identity)
  have s: "0 \<le> ?s" "?s \<le> 1" by (simp_all add: abs_square_le_1)
  have t: "0 \<le> ?t" "?t \<le> 1" by (simp_all add: abs_square_le_1)
  have u: "0 \<le> ?u" "?u \<le> 1" by (simp_all add: abs_square_le_1)
  have "0 \<le> ?s * (1 - ?t)" using s t by simp
  moreover have "0 \<le> ?u * ?t" using u t by simp
  ultimately show "0 \<le> a" unfolding a by linarith
  have "?s * (1 - ?t) \<le> 1 - ?t" using mult_right_mono [of ?s 1 "1 - ?t"] s t by simp
  moreover have "?u * ?t \<le> ?t" using mult_right_mono [of ?u 1 ?t] u t by simp
  ultimately show "a \<le> 1" unfolding a by linarith
qed

lemma sin_half_diff_sq:
  fixes x y :: real
  shows "(sin ((x - y) / 2))\<^sup>2 = (sin ((y - x) / 2))\<^sup>2"
proof -
  have "(x - y) / 2 = - ((y - x) / 2)" by argo
  then have "sin ((x - y) / 2) = - sin ((y - x) / 2)"
    by (simp only: sin_minus)
  then show ?thesis by simp
qed

lemma haversine_distance_value:
  "haversine_distance lat1 lon1 lat2 lon2 = Inr (haversine_formula lat1 lon1 lat2 lon2)"
proof -
  let ?a = "(sin ((radians lat2 - radians lat1) / 2))\<^sup>2 +
            cos (radians lat1) * cos (radians lat2) * (sin ((radians lon2 - radians lon1) / 2))\<^sup>2"
  have a0: "0 \<le> ?a" and a1: "?a \<le> 1" by (rule hav_bounds)+
  have r0: "0 \<le> sqrt ?a" using a0 by simp
  have r1: "sqrt ?a \<le> 1" using a1 by simp
  have "\<not> ?a < 0" using a0 by simp
  moreover have "\<not> (sqrt ?a < - 1 \<or> 1 < sqrt ?a)" using r0 r1 by linarith
  ultimately show ?thesis
    by (simp add: haversine_distance_def haversine_formula_def py_sqrt_def py_asin_def bind_def
        Let_def)
qed

lemma haversine_formula_sym:
  "haversine_formula lat1 lon1 lat2 lon2 = haversine_formula lat2 lon2 lat1 lon1"
  unfolding haversine_formula_def
  using sin_half_diff_sq [of "radians lat2" "radians lat1"]
    sin_half_diff_sq [of "radians lon2" "radians lon1"]
  by (simp add: mult.commute)

text \<open>
  C4. Over the real numbers, \<open>haversine_distance\<close> raises nothing and returns the value
  of the reference formula: with both points in radians,
  \<open>a = sin\<^sup>2(dlat/2) + cos(lat1) cos(lat2) sin\<^sup>2(dlon/2)\<close> and the distance is
  \<open>2 R asin(sqrt a)\<close> with \<open>R = 6371\<close>. The result is a function of the four arguments
  alone.
\<close>

theorem haversine_equals_formula:
  "haversine_distance lat1 lon1 lat2 lon2 =
     Inr (2 * 6371 *
       arcsin (sqrt ((sin ((radians lat2 - radians lat1) / 2))\<^sup>2 +
                     cos (radians lat1) * cos (radians lat2) *
                       (sin ((radians lon2 - radians lon1) / 2))\<^sup>2))) \<and>
   haversine_distance lat1 lon1 lat2 lon2 = Inr (haversine_formula lat1 lon1 lat2 lon2)"
  using haversine_distance_value [of lat1 lon1 lat2 lon2]
  by (simp add: haversine_formula_def)

text \<open>
  C5. Over the real numbers, the distance from a point to itself is 0, in particular at
  (25.0478, 121.5170), and the distance from \<open>a\<close> to \<open>b\<close> is the distance from \<open>b\<close>
  to \<open>a\<close>.
\<close>

theorem haversine_zero_and_symmetric:
  "haversine_distance lat lon lat lon = Inr 0 \<and>
   haversine_distance 25.0478 121.5170 25.0478 121.5170 = Inr 0 \<and>
   haversine_distance lat1 lon1 lat2 lon2 = haversine_distance lat2 lon2 lat1 lon1"
proof -
  have same: "\<And>la lo. haversine_distance la lo la lo = Inr 0"
    by (simp add: haversine_distance_def py_sqrt_def py_asin_def bind_def Let_def)
  have "haversine_distance lat1 lon1 lat2 lon2 = haversine_distance lat2 lon2 lat1 lon1"
    using haversine_formula_sym [of lat1 lon1 lat2 lon2]
    by (simp add: haversine_distance_value)
  with same [of lat lon] same [of "25.0478" "121.5170"] show ?thesis by simp
qed

section \<open>The threshold filter\<close>

lemma is_high_eq: "0 \<le> threshold \<Longrightarrow> is_high threshold = above_threshold threshold"
  by (auto simp: is_high_def above_threshold_def aqi_truthy_def fun_eq_iff split: option.splits)

lemma identify_high_nonnegative_threshold:
  assumes "0 \<le> threshold"
  shows "mset (identify_high_aqi_stations (Some ps) threshold) = mset (filter (above_threshold threshold) ps)"
    and "sorted (rev (map aqi_key (identify_high_aqi_stations (Some ps) threshold)))"
    and "filter (\<lambda>r. aqi_key r = k) (identify_high_aqi_stations (Some ps) threshold)
         = filter (\<lambda>r. aqi_key r = k) (filter (above_threshold threshold) ps)"
proof -
  let ?f = "filter (above_threshold threshold) ps"
  have e: "identify_high_aqi_stations (Some ps) threshold = sort_key (\<lambda>x. - aqi_key x) ?f"
    by (cases ps) (simp_all add: identify_high_aqi_stations_def sort_reverse_def is_high_eq [OF assms])
  show "mset (identify_high_aqi_stations (Some ps) threshold) = mset ?f" by (simp add: e)
  have "sorted (map (\<lambda>x. - aqi_key x) (sort_key (\<lambda>x. - aqi_key x) ?f))" by (rule sorted_sort_key)
  then have "sorted (map uminus (map aqi_key (sort_key (\<lambda>x. - aqi_key x) ?f)))" by (simp add: comp_def)
  then show "sorted (rev (map aqi_key (identify_high_aqi_stations (Some ps) threshold)))"
    unfolding e by (simp add: sorted_wrt_rev sorted_map sorted_wrt_map) 
  have "filter (\<lambda>r. - aqi_key r = - k) (sort_key (\<lambda>x. - aqi_key x) ?f) = filter (\<lambda>r. - aqi_key r = - k) ?f"
    by (rule sort_key_stable)
  then show "filter (\<lambda>r. aqi_key r = k) (identify_high_aqi_stations (Some ps) threshold)
         = filter (\<lambda>r. aqi_key r = k) ?f" unfolding e by simp
qed

text \<open>
  C3. The claim holds for a threshold that is not negative
  (\<open>identify_high_nonnegative_threshold\<close>: the result is the readings with an AQI above
  the threshold, in non-increasing order of AQI, equal AQIs in input order). Below zero
  the code departs from it: a reading with AQI 0 is present and 0 is greater than -1, but
  the truth test \<open>station['aqi'] and ...\<close> drops it, so the result is empty where the
  claim asks for the reading.
\<close>

theorem identify_high_drops_zero_aqi:
  "identify_high_aqi_stations (Some [station_with_aqi (Some 0)]) (- 1) = [] \<and>
   filter (above_threshold (- 1)) [station_with_aqi (Some 0)] = [station_with_aqi (Some 0)]"
  by (simp add: identify_high_aqi_stations_def is_high_def aqi_truthy_def sort_reverse_def
      above_threshold_def station_with_aqi_def)

section \<open>The normalizer\<close>



















section \<open>The aggregator\<close>

lemma aqi_station_with_aqi: "aqi (station_with_aqi a) = a"
  by (simp add: station_with_aqi_def)

lemma valid_aqi_examples:
  "valid_aqi [station_with_aqi (Some 10), station_with_aqi (Some 20), station_with_aqi (Some 30)] =
     [10, 20, 30]"
  "valid_aqi [station_with_aqi None] = []"
  by (simp_all add: valid_aqi_def station_with_aqi_def)

lemma statistics_10_20_30:
  "series_max [10, 20, 30] = 30" "series_min [10, 20, 30] = 10"
  "round1 (series_mean [10, 20, 30]) = 20" "trunc (series_median [10, 20, 30]) = 20"
  by (simp_all add: series_max_def series_min_def series_mean_def series_median_def round1_def
      round_half_even_def trunc_def Let_def)

text \<open>
  C8. On a data frame with no AQI value (the empty frame included),
  \<open>create_statistics_summary\<close> raises nothing and its statistics (maximum, minimum, mean,
  median) are all \<open>None\<close>; on the values 10, 20, 30 they are 30, 10, 20 and 20.
  \<open>generate_summary\<close>, which has no median, returns \<open>None\<close> for an empty list of
  readings, \<open>None\<close> for maximum, minimum and mean when no reading has an AQI, and 30, 10
  and 20 on the values 10, 20, 30.
\<close>

theorem aggregator_empty_and_10_20_30:
  "(valid_aqi df = [] \<longrightarrow>
      map_option statistics (create_statistics_summary (Some df)) =
        Some \<lparr> max_aqi = None, min_aqi = None, avg_aqi = None, median_aqi = None \<rparr>) \<and>
   map_option statistics (create_statistics_summary (Some [])) =
     Some \<lparr> max_aqi = None, min_aqi = None, avg_aqi = None, median_aqi = None \<rparr> \<and>
   map_option statistics (create_statistics_summary
       (Some [station_with_aqi (Some 10), station_with_aqi (Some 20), station_with_aqi (Some 30)])) =
     Some \<lparr> max_aqi = Some 30, min_aqi = Some 10, avg_aqi = Some 20, median_aqi = Some 20 \<rparr> \<and>
   generate_summary (Some []) hs = None \<and>
   (ps \<noteq> [] \<and> valid_aqi ps = [] \<longrightarrow>
      map_option (\<lambda>s. (max_aqi' s, min_aqi' s, avg_aqi' s)) (generate_summary (Some ps) hs) =
        Some (None, None, None)) \<and>
   map_option (\<lambda>s. (max_aqi' s, min_aqi' s, avg_aqi' s)) (generate_summary
       (Some [station_with_aqi (Some 10), station_with_aqi (Some 20), station_with_aqi (Some 30)]) hs) =
     Some (Some 30, Some 10, Some 20)"
proof -
  have 1: "valid_aqi df = [] \<longrightarrow>
      map_option statistics (create_statistics_summary (Some df)) =
        Some \<lparr> max_aqi = None, min_aqi = None, avg_aqi = None, median_aqi = None \<rparr>"
    by (simp add: create_statistics_summary_def Let_def)
  have 2: "map_option statistics (create_statistics_summary (Some [])) =
     Some \<lparr> max_aqi = None, min_aqi = None, avg_aqi = None, median_aqi = None \<rparr>"
    by (simp add: create_statistics_summary_def Let_def valid_aqi_def)
  have 3: "map_option statistics (create_statistics_summary
       (Some [station_with_aqi (Some 10), station_with_aqi (Some 20), station_with_aqi (Some 30)])) =
     Some \<lparr> max_aqi = Some 30, min_aqi = Some 10, avg_aqi = Some 20, median_aqi = Some 20 \<rparr>"
    by (simp add: create_statistics_summary_def Let_def valid_aqi_examples statistics_10_20_30)
  have 4: "generate_summary (Some []) hs = None"
    by (simp add: generate_summary_def)
  have 5: "ps \<noteq> [] \<and> valid_aqi ps = [] \<longrightarrow>
      map_option (\<lambda>s. (max_aqi' s, min_aqi' s, avg_aqi' s)) (generate_summary (Some ps) hs) =
        Some (None, None, None)"
    by (simp add: generate_summary_def Let_def valid_aqi_def)
  have 6: "map_option (\<lambda>s. (max_aqi' s, min_aqi' s, avg_aqi' s)) (generate_summary
       (Some [station_with_aqi (Some 10), station_with_aqi (Some 20), station_with_aqi (Some 30)]) hs) =
     Some (Some 30, Some 10, Some 20)"
    by (simp add: generate_summary_def Let_def aqi_station_with_aqi statistics_10_20_30)
  from 1 2 3 4 5 6 show ?thesis by blast
qed

theorem aggregator_empty_and_10_20_30_witness:
  "valid_aqi [station_with_aqi None] = [] \<and>
   map_option statistics (create_statistics_summary (Some [station_with_aqi None])) =
     Some \<lparr> max_aqi = None, min_aqi = None, avg_aqi = None, median_aqi = None \<rparr> \<and>
   map_option (\<lambda>s. (max_aqi' s, min_aqi' s, avg_aqi' s))
       (generate_summary (Some [station_with_aqi None]) []) =
     Some (None, None, None)"
proof -
  have "[station_with_aqi None] \<noteq> []" by simp
  with valid_aqi_examples(2) aggregator_empty_and_10_20_30 [of "[station_with_aqi None]" "[]" "[station_with_aqi None]"]
  show ?thesis by blast
qed

section \<open>Empty inputs\<close>

text \<open>
  C6. The claim fails on the code at two places. A data frame whose only station has no
  coordinates gives an empty frame of distances (an explicit empty result), but
  \<open>analyze_distance_distribution\<close> on the empty frame raises \<open>ValueError\<close> from
  \<open>idxmin\<close>, and so does \<open>run_analysis\<close>. A fetched list whose only record has no
  field gives one reading without AQI, no station above the threshold (an explicit empty
  list) and a summary whose average is \<open>None\<close>, and the summary display of
  \<open>run_monitoring\<close> raises \<open>TypeError\<close> when it formats that average.
\<close>

theorem empty_input_raises:
  "calculate_distances (Some [station_with_aqi (Some 80)]) = Inr (Some []) \<and>
   analyze_distance_distribution (Some []) = Inl ValueError \<and>
   run_analysis (Some [station_with_aqi (Some 80)]) = Inl ValueError \<and>
   process_aqi_data py_int py_float (Some [Map.empty]) = Inr (Some [station_with_aqi None]) \<and>
   identify_high_aqi_stations (Some [station_with_aqi None]) 50 = [] \<and>
   map_option avg_aqi' (generate_summary (Some [station_with_aqi None]) []) = Some None \<and>
   run_monitoring py_int py_float (Some [Map.empty]) = Inl TypeError"
proof -
  have 1: "calculate_distances (Some [station_with_aqi (Some 80)]) = Inr (Some [])"
    by (simp add: calculate_distances_def has_coordinates_def station_with_aqi_def bind_def)
  have 2: "analyze_distance_distribution (Some []) = Inl ValueError"
    by (simp add: analyze_distance_distribution_def idxmin_def bind_def)
  have 3: "run_analysis (Some [station_with_aqi (Some 80)]) = Inl ValueError"
    by (simp add: run_analysis_def 1 2 bind_def)
  have r: "process_record py_int py_float Map.empty = Inr (station_with_aqi None)"
    by (simp add: process_record_def coerce_def get_def bind_def station_with_aqi_def)
  have 4: "process_aqi_data py_int py_float (Some [Map.empty]) = Inr (Some [station_with_aqi None])"
    by (simp add: process_aqi_data_def r bind_def)
  have 5: "identify_high_aqi_stations (Some [station_with_aqi None]) 50 = []"
    by (simp add: identify_high_aqi_stations_def is_high_def aqi_truthy_def sort_reverse_def
        station_with_aqi_def)
  have g: "generate_summary (Some [station_with_aqi None]) [] =
      Some \<lparr> total_stations' = 1, stations_with_aqi_data' = 0, high_aqi_stations' = 0,
             percentage_high_aqi' = 0, max_aqi' = None, min_aqi' = None, avg_aqi' = None \<rparr>"
    by (simp add: generate_summary_def Let_def station_with_aqi_def)
  have 6: "map_option avg_aqi' (generate_summary (Some [station_with_aqi None]) []) = Some None"
    by (simp add: g)
  have d: "\<And>s. avg_aqi' s = None \<Longrightarrow> display_summary s = Inl TypeError"
    by (simp add: display_summary_def format_1f_def bind_def)
  have 7: "run_monitoring py_int py_float (Some [Map.empty]) = Inl TypeError"
    by (simp add: run_monitoring_def 4 5 g d bind_def)
  from 1 2 3 4 5 6 7 show ?thesis by blast
qed

end
